theory Spec2Isabelle
  imports Complex_Main
begin

section \<open>Python values and the built-in operations the program uses\<close>

text \<open>
  The program of \<^verbatim>\<open>getWorksByORCID.py\<close> works on the values that
  \<^verbatim>\<open>response.json()\<close> returns: \<^verbatim>\<open>None\<close>, booleans, integers, strings,
  lists and dictionaries with string keys. A dictionary is an association list in
  insertion order; the binding of a key is its first entry in the list. A character
  stands for one code point below 256. Floating-point numbers are not part of the value
  type.
\<close>

datatype json =
    JNull
  | JBool bool
  | JInt int
  | JStr string
  | JArr "json list"
  | JObj "(string \<times> json) list"

text \<open>The exceptions that the program can meet.\<close>

datatype py_error =
    AttributeError
  | IndexError
  | KeyError
  | TypeError
  | NameError
  | ValueError
  | OverflowError
  | JSONDecodeError
  | OSError

type_synonym 'a result = "py_error + 'a"

text \<open>Sequencing of two steps: an exception of the first step leaves the second out.\<close>

definition andthen :: "'a result \<Rightarrow> ('a \<Rightarrow> 'b result) \<Rightarrow> 'b result" where
  "andthen r f = (case r of Inl e \<Rightarrow> Inl e | Inr v \<Rightarrow> f v)"

text \<open>\<^verbatim>\<open>bool(v)\<close>: the truth value of a Python value.\<close>

fun truthy :: "json \<Rightarrow> bool" where
  "truthy JNull = False"
| "truthy (JBool b) = b"
| "truthy (JInt i) = (i \<noteq> 0)"
| "truthy (JStr s) = (s \<noteq> [])"
| "truthy (JArr xs) = (xs \<noteq> [])"
| "truthy (JObj kvs) = (kvs \<noteq> [])"

text \<open>\<^verbatim>\<open>a or b\<close>.\<close>

definition py_or :: "json \<Rightarrow> json \<Rightarrow> json" where
  "py_or a b = (if truthy a then a else b)"

text \<open>
  \<^verbatim>\<open>v.get(k, d)\<close>: only a dictionary has the method; on every other value the
  attribute lookup raises \<^verbatim>\<open>AttributeError\<close>.
\<close>

fun py_get :: "json \<Rightarrow> string \<Rightarrow> json \<Rightarrow> json result" where
  "py_get (JObj kvs) k d = Inr (case map_of kvs k of None \<Rightarrow> d | Some v \<Rightarrow> v)"
| "py_get v k d = Inl AttributeError"

text \<open>
  \<^verbatim>\<open>v[0]\<close>: the first element of a list or string, \<^verbatim>\<open>IndexError\<close> when it is
  empty; a dictionary from JSON has no key \<^verbatim>\<open>0\<close>, so the lookup raises
  \<^verbatim>\<open>KeyError\<close>; the other values are not subscriptable.
\<close>

fun py_first :: "json \<Rightarrow> json result" where
  "py_first (JArr []) = Inl IndexError"
| "py_first (JArr (x # xs)) = Inr x"
| "py_first (JStr []) = Inl IndexError"
| "py_first (JStr (c # cs)) = Inr (JStr [c])"
| "py_first (JObj kvs) = Inl KeyError"
| "py_first v = Inl TypeError"

text \<open>
  \<^verbatim>\<open>for x in v\<close>: the elements of a list, the keys of a dictionary, the characters
  of a string; the other values are not iterable.
\<close>

definition first_seen :: "'a list \<Rightarrow> 'a list" where
  "first_seen xs = rev (remdups (rev xs))"

fun py_iter :: "json \<Rightarrow> (json list) result" where
  "py_iter (JArr xs) = Inr xs"
| "py_iter (JObj kvs) = Inr (map JStr (first_seen (map fst kvs)))"
| "py_iter (JStr s) = Inr (map (\<lambda>c. JStr [c]) s)"
| "py_iter v = Inl TypeError"

text \<open>\<^verbatim>\<open>k in v\<close> for a string \<^verbatim>\<open>k\<close>.\<close>

fun is_substring :: "string \<Rightarrow> string \<Rightarrow> bool" where
  "is_substring k [] = (k = [])"
| "is_substring k (c # cs) = (take (length k) (c # cs) = k \<or> is_substring k cs)"

fun py_contains :: "string \<Rightarrow> json \<Rightarrow> bool result" where
  "py_contains k (JObj kvs) = Inr (k \<in> set (map fst kvs))"
| "py_contains k (JArr xs) = Inr (JStr k \<in> set xs)"
| "py_contains k (JStr s) = Inr (is_substring k s)"
| "py_contains k v = Inl TypeError"

text \<open>\<^verbatim>\<open>v[k]\<close> for a string \<^verbatim>\<open>k\<close>.\<close>

fun py_item :: "json \<Rightarrow> string \<Rightarrow> json result" where
  "py_item (JObj kvs) k = (case map_of kvs k of None \<Rightarrow> Inl KeyError | Some v \<Rightarrow> Inr v)"
| "py_item v k = Inl TypeError"

subsection \<open>Strings\<close>

fun digit_char :: "nat \<Rightarrow> char" where
  "digit_char n = ''0123456789'' ! n"

fun show_nat :: "nat \<Rightarrow> string" where
  "show_nat n = (if n < 10 then [digit_char n] else show_nat (n div 10) @ [digit_char (n mod 10)])"

declare show_nat.simps [simp del]

definition show_int :: "int \<Rightarrow> string" where
  "show_int i = (if i < 0 then CHR ''-'' # show_nat (nat (- i)) else show_nat (nat i))"

text \<open>
  \<^verbatim>\<open>str(v)\<close>. The text of a list or of a dictionary is Python's \<^verbatim>\<open>repr\<close> of it,
  which is taken as the parameter \<open>R\<close>.
\<close>

fun py_str :: "(json \<Rightarrow> string) \<Rightarrow> json \<Rightarrow> string" where
  "py_str R (JStr s) = s"
| "py_str R (JInt i) = show_int i"
| "py_str R (JBool b) = (if b then ''True'' else ''False'')"
| "py_str R JNull = ''None''"
| "py_str R v = R v"

text \<open>
  \<^verbatim>\<open>s.zfill(width)\<close>: zeros are put on the left up to the width, after a leading
  sign when there is one.
\<close>

definition zfill :: "nat \<Rightarrow> string \<Rightarrow> string" where
  "zfill width s =
     (if width \<le> length s then s
      else (case s of
              [] \<Rightarrow> replicate width (CHR ''0'')
            | c # cs \<Rightarrow>
                if c = CHR ''+'' \<or> c = CHR ''-''
                then c # replicate (width - length s) (CHR ''0'') @ cs
                else replicate (width - length s) (CHR ''0'') @ s))"

section \<open>The extraction of \<^verbatim>\<open>get_orcid_works\<close>\<close>

definition NA :: json where
  "NA = JStr ''N/A''"

text \<open>Line 42: the title.\<close>

definition title_of :: "json \<Rightarrow> json result" where
  "title_of work_summary =
     andthen (py_get work_summary ''title'' (JObj [])) (\<lambda>a.
     andthen (py_get a ''title'' (JObj [])) (\<lambda>b.
     py_get b ''value'' NA))"

text \<open>
  Lines 47 to 49: \<^verbatim>\<open>(pub_date.get(part) or {}).get("value") or dflt\<close>.
\<close>

definition date_part :: "json \<Rightarrow> string \<Rightarrow> json \<Rightarrow> json result" where
  "date_part pub_date part dflt =
     andthen (py_get pub_date part JNull) (\<lambda>p.
     andthen (py_get (py_or p (JObj [])) ''value'' JNull) (\<lambda>v.
     Inr (py_or v dflt)))"

text \<open>Lines 44 to 55: the publication date.\<close>

definition publication_date_of :: "(json \<Rightarrow> string) \<Rightarrow> json \<Rightarrow> json result" where
  "publication_date_of R work_summary =
     andthen (py_get work_summary ''publication-date'' JNull) (\<lambda>pub_date.
     if truthy pub_date then
       andthen (date_part pub_date ''year'' (JStr '''')) (\<lambda>year.
       andthen (date_part pub_date ''month'' (JStr ''01'')) (\<lambda>month0.
       andthen (date_part pub_date ''day'' (JStr ''01'')) (\<lambda>day0.
       let month = py_str R month0; day = py_str R day0 in
       if truthy year
       then Inr (JStr (py_str R year @ ''-'' @ zfill 2 month @ ''-'' @ zfill 2 day))
       else Inr JNull)))
     else Inr JNull)"

text \<open>Lines 57 to 65: the journal, or the name of the source.\<close>

definition journal_of :: "json \<Rightarrow> json result" where
  "journal_of work_summary =
     andthen (py_contains ''journal-title'' work_summary) (\<lambda>has_jt.
     andthen (if has_jt then py_item work_summary ''journal-title'' else Inr JNull) (\<lambda>jt.
     if has_jt \<and> truthy jt then py_get jt ''value'' NA
     else
       andthen (py_get work_summary ''source'' (JArr [])) (\<lambda>source_names.
       if truthy source_names then
         andthen (py_first source_names) (\<lambda>source.
         andthen (py_contains ''source-name'' source) (\<lambda>has_sn.
         if has_sn then
           andthen (py_item source ''source-name'') (\<lambda>sn. py_get sn ''value'' NA)
         else Inr NA))
       else Inr NA)))"

text \<open>Lines 69 to 72: the scan of the external identifiers.\<close>

fun doi_scan :: "json list \<Rightarrow> json result" where
  "doi_scan [] = Inr NA"
| "doi_scan (ext_id # rest) =
     (case py_get ext_id ''external-id-type'' JNull of
        Inl e \<Rightarrow> Inl e
      | Inr t \<Rightarrow>
          if t = JStr ''doi'' then py_get ext_id ''external-id-value'' NA
          else doi_scan rest)"

text \<open>Lines 67 to 72: the DOI.\<close>

definition doi_of :: "json \<Rightarrow> json result" where
  "doi_of work_summary =
     andthen (py_get work_summary ''external-ids'' (JObj [])) (\<lambda>x.
     andthen (py_get x ''external-id'' (JArr [])) (\<lambda>external_ids.
     andthen (py_iter external_ids) doi_scan))"

text \<open>
  Lines 40 to 79: the body of the loop for one group. The result is the dictionary that
  is appended to \<^verbatim>\<open>works\<close>.
\<close>

type_synonym work = "(string \<times> json) list"

definition work_of_group :: "(json \<Rightarrow> string) \<Rightarrow> json \<Rightarrow> work result" where
  "work_of_group R grp =
     andthen (py_get grp ''work-summary'' (JArr [JObj []])) (\<lambda>summaries.
     andthen (py_first summaries) (\<lambda>work_summary.
     andthen (title_of work_summary) (\<lambda>title.
     andthen (publication_date_of R work_summary) (\<lambda>publication_date.
     andthen (journal_of work_summary) (\<lambda>journal_title.
     andthen (doi_of work_summary) (\<lambda>doi.
     Inr [(''title'', title), (''publication_date'', publication_date),
          (''journal'', journal_title), (''doi'', doi)]))))))"

text \<open>Lines 37 to 81: the loop over the groups; an exception ends it.\<close>

fun works_loop :: "(json \<Rightarrow> string) \<Rightarrow> json list \<Rightarrow> work list \<Rightarrow> (work list) result" where
  "works_loop R [] works = Inr works"
| "works_loop R (grp # rest) works =
     (case work_of_group R grp of
        Inl e \<Rightarrow> Inl e
      | Inr w \<Rightarrow> works_loop R rest (works @ [w]))"

definition extract_works :: "(json \<Rightarrow> string) \<Rightarrow> json \<Rightarrow> (work list) result" where
  "extract_works R data =
     andthen (py_get data ''group'' (JArr [])) (\<lambda>g.
     andthen (py_iter g) (\<lambda>groups. works_loop R groups []))"

section \<open>The roster, the network and the files\<close>

text \<open>
  A cell of the sheet that \<^verbatim>\<open>pd.read_excel\<close> returns: a string, an integer, a
  boolean, the missing value \<^verbatim>\<open>nan\<close>, or another value (a float, a timestamp), which
  is given by the text that \<^verbatim>\<open>str\<close> returns for it; the program applies nothing
  but \<^verbatim>\<open>str\<close> to a cell.
\<close>

datatype cell = CStr string | CInt int | CBool bool | CNaN | COther string

fun str_cell :: "cell \<Rightarrow> string" where
  "str_cell (CStr s) = s"
| "str_cell (CInt i) = show_int i"
| "str_cell (CBool b) = (if b then ''True'' else ''False'')"
| "str_cell CNaN = ''nan''"
| "str_cell (COther s) = s"

record sheet =
  columns :: "string list"
  rows :: "cell list list"

text \<open>\<^verbatim>\<open>row[c]\<close>: the cell of the row under the column; pandas fills a short row with \<^verbatim>\<open>nan\<close>.\<close>

definition cell_at :: "string list \<Rightarrow> cell list \<Rightarrow> string \<Rightarrow> cell" where
  "cell_at cols row c = (case map_of (zip cols row) c of None \<Rightarrow> CNaN | Some x \<Rightarrow> x)"

text \<open>\<^verbatim>\<open>s.strip()\<close> and \<^verbatim>\<open>s.lower()\<close> on code points below 256.\<close>

definition is_space :: "char \<Rightarrow> bool" where
  "is_space c = ((of_char c :: nat) \<in> set [9, 10, 11, 12, 13, 28, 29, 30, 31, 32, 133, 160])"

definition strip :: "string \<Rightarrow> string" where
  "strip s = rev (dropWhile is_space (rev (dropWhile is_space s)))"

definition lower_char :: "char \<Rightarrow> char" where
  "lower_char c =
     (let n = (of_char c :: nat)
      in if (65 \<le> n \<and> n \<le> 90) \<or> (192 \<le> n \<and> n \<le> 222 \<and> n \<noteq> 215)
         then char_of (n + 32) else c)"

definition lower :: "string \<Rightarrow> string" where
  "lower s = map lower_char s"

text \<open>
  The reply to \<^verbatim>\<open>requests.get\<close> followed by \<^verbatim>\<open>raise_for_status\<close> and
  \<^verbatim>\<open>response.json()\<close>: a failure of the request, a body that is not JSON, or the
  parsed document.
\<close>

datatype http_result = RequestFailed | NotJson | Json json

datatype read_result = ReadError py_error | Frame sheet

text \<open>
  A cell of the table of the export, as the sheet will hold it. \<open>Val JNull\<close> is an empty
  cell: pandas writes \<^verbatim>\<open>None\<close> and its missing value \<^verbatim>\<open>NaN\<close> alike as an
  empty cell, and which of the two a column holds depends on the other values of the
  column. \<open>Val (JInt i)\<close> is the number \<open>i\<close>, whether pandas holds the column as
  integers or, beside a missing value, as floats (an integer beyond \<open>2 ^ 53\<close> would be
  rounded there).
\<close>

datatype dfcell = Val json

type_synonym dataframe = "(string \<times> dfcell list) list"

text \<open>
  The world outside the program: the files that can be read, the reply of the server to
  the \<open>n\<close>-th request of the run, whether a file can be written (\<open>None\<close>) or
  the writer raises, and what the clock of the platform does with a length of sleep that
  is not negative: \<open>None\<close> when \<^verbatim>\<open>time.sleep\<close> returns, else the exception
  (\<^verbatim>\<open>OverflowError\<close> or \<^verbatim>\<open>OSError\<close> for a length that the clock cannot hold).
\<close>

record world =
  read_excel :: "string \<Rightarrow> read_result"
  http_get :: "nat \<Rightarrow> string \<Rightarrow> http_result"
  to_excel :: "string \<Rightarrow> py_error option"
  clock :: "rat \<Rightarrow> py_error option"

text \<open>The two module-level names that the body reads; \<open>None\<close> is an unbound name.\<close>

record globals =
  input_file :: "string option"
  output_file :: "string option"

text \<open>What the program prints, and what it does to the world.\<close>

datatype message =
    FailToRequest string
  | MissingColumns
  | CannotRead py_error
  | SkipInvalid string
  | Getting string string
  | Found nat
  | Exported nat string
  | NoWorks

datatype event =
    Print message
  | Request string
  | Sleep rat
  | Write string dataframe

record run_state =
  events :: "event list"
  all_works :: "work list"
  requests :: nat

definition emit :: "event \<Rightarrow> run_state \<Rightarrow> run_state" where
  "emit e s = s\<lparr>events := events s @ [e]\<rparr>"

section \<open>\<^verbatim>\<open>get_orcid_works\<close> with its request\<close>

text \<open>
  Lines 28 to 81. A failed request is printed and gives the empty list; the exception of
  \<^verbatim>\<open>response.json()\<close> and those of the extraction are not caught.
\<close>

definition get_orcid_works ::
  "world \<Rightarrow> (json \<Rightarrow> string) \<Rightarrow> string \<Rightarrow> run_state \<Rightarrow> run_state \<times> (work list) result" where
  "get_orcid_works W R orcid_id s =
     (let s1 = (emit (Request orcid_id) s)\<lparr>requests := Suc (requests s)\<rparr>
      in case http_get W (requests s) orcid_id of
           RequestFailed \<Rightarrow> (emit (Print (FailToRequest orcid_id)) s1, Inr [])
         | NotJson \<Rightarrow> (s1, Inl JSONDecodeError)
         | Json data \<Rightarrow> (s1, extract_works R data))"

section \<open>\<^verbatim>\<open>fetch_orcid_works_from_excel\<close>\<close>

text \<open>\<^verbatim>\<open>d[k] = v\<close> on a dictionary, as \<^verbatim>\<open>work.update\<close> does for each of its keys.\<close>

fun dict_set :: "(string \<times> json) list \<Rightarrow> string \<Rightarrow> json \<Rightarrow> (string \<times> json) list" where
  "dict_set [] k v = [(k, v)]"
| "dict_set ((k', v') # kvs) k v =
     (if k' = k then (k, v) # kvs else (k', v') # dict_set kvs k v)"

definition tag :: "string \<Rightarrow> string \<Rightarrow> work \<Rightarrow> work" where
  "tag name orcid w = dict_set (dict_set w ''Name'' (JStr name)) ''ORCID'' (JStr orcid)"

text \<open>Line 115: the test that skips a row.\<close>

definition invalid_orcid :: "string \<Rightarrow> bool" where
  "invalid_orcid orcid = (orcid = [] \<or> lower orcid \<in> set [''nan'', ''none'', '''', ''null''])"

text \<open>
  Line 130: \<^verbatim>\<open>time.sleep(sleep_time)\<close>. A negative length raises
  \<^verbatim>\<open>ValueError\<close>; for the others the clock of the platform decides. The length is
  a number; the float that is not a number is not among the lengths.
\<close>

definition time_sleep :: "world \<Rightarrow> rat \<Rightarrow> py_error option" where
  "time_sleep W sleep_time = (if sleep_time < 0 then Some ValueError else clock W sleep_time)"

text \<open>
  Lines 111 to 130: the loop over the rows. The second component of the result is the
  exception that ended the loop, if one did.
\<close>

fun rows_loop ::
  "world \<Rightarrow> (json \<Rightarrow> string) \<Rightarrow> rat \<Rightarrow> string list \<Rightarrow> cell list list \<Rightarrow> run_state
     \<Rightarrow> run_state \<times> py_error option" where
  "rows_loop W R sleep_time cols [] s = (s, None)"
| "rows_loop W R sleep_time cols (row # rest) s =
     (let name = strip (str_cell (cell_at cols row ''Name''));
          orcid = strip (str_cell (cell_at cols row ''ORCID''))
      in if invalid_orcid orcid
         then rows_loop W R sleep_time cols rest (emit (Print (SkipInvalid name)) s)
         else
           (case get_orcid_works W R orcid (emit (Print (Getting name orcid)) s) of
              (s1, Inl e) \<Rightarrow> (s1, Some e)
            | (s1, Inr works) \<Rightarrow>
                (let s2 = emit (Print (Found (length works)))
                            (s1\<lparr>all_works := all_works s1 @ map (tag name orcid) works\<rparr>)
                 in case time_sleep W sleep_time of
                      Some e \<Rightarrow> (s2, Some e)
                    | None \<Rightarrow> rows_loop W R sleep_time cols rest (emit (Sleep sleep_time) s2))))"

text \<open>
  Line 133: \<^verbatim>\<open>pd.DataFrame(all_works)\<close>. The columns are the keys of the
  dictionaries in the order of their first appearance; a dictionary without the key
  gives the missing value, an empty cell.
\<close>

definition DataFrame :: "work list \<Rightarrow> dataframe" where
  "DataFrame ws =
     map (\<lambda>c. (c, map (\<lambda>w. case map_of w c of None \<Rightarrow> Val JNull | Some v \<Rightarrow> Val v) ws))
       (first_seen (concat (map (map fst) ws)))"

definition desired_order :: "string list" where
  "desired_order = [''Name'', ''ORCID'', ''title'', ''publication_date'', ''journal'', ''doi'']"

text \<open>Lines 135 to 137: a column that is not there is added, filled with "N/A".\<close>

fun fill_missing :: "nat \<Rightarrow> string list \<Rightarrow> dataframe \<Rightarrow> dataframe" where
  "fill_missing n [] df = df"
| "fill_missing n (col # rest) df =
     fill_missing n rest
       (if col \<notin> set (map fst df) then df @ [(col, replicate n (Val NA))] else df)"

text \<open>Line 138: \<^verbatim>\<open>df[desired_order]\<close>, which raises \<^verbatim>\<open>KeyError\<close> for a column that is not there.\<close>

fun select_columns :: "dataframe \<Rightarrow> string list \<Rightarrow> dataframe result" where
  "select_columns df [] = Inr []"
| "select_columns df (col # rest) =
     (case map_of df col of
        None \<Rightarrow> Inl KeyError
      | Some xs \<Rightarrow>
          (case select_columns df rest of
             Inl e \<Rightarrow> Inl e
           | Inr others \<Rightarrow> Inr ((col, xs) # others)))"

text \<open>Lines 140 to 145: the new names of the four columns of the extraction.\<close>

definition rename_column :: "string \<Rightarrow> string" where
  "rename_column c =
     (case map_of [(''title'', ''Title''), (''publication_date'', ''Publication Date''),
                   (''journal'', ''Journal/Source''), (''doi'', ''DOI'')] c of
        None \<Rightarrow> c
      | Some c' \<Rightarrow> c')"

definition rename :: "dataframe \<Rightarrow> dataframe" where
  "rename df = map (\<lambda>(c, xs). (rename_column c, xs)) df"

text \<open>Lines 132 to 150: the export.\<close>

definition export_works :: "globals \<Rightarrow> world \<Rightarrow> run_state \<Rightarrow> event list \<times> py_error option" where
  "export_works G W s =
     (if all_works s \<noteq> [] then
        (case select_columns
                (fill_missing (length (all_works s)) desired_order (DataFrame (all_works s)))
                desired_order of
           Inl e \<Rightarrow> (events s, Some e)
         | Inr df \<Rightarrow>
             (case output_file G of
                None \<Rightarrow> (events s, Some NameError)
              | Some out \<Rightarrow>
                  (case to_excel W out of
                     Some e \<Rightarrow> (events s, Some e)
                   | None \<Rightarrow>
                       (events s @ [Write out (rename df),
                                    Print (Exported (length (all_works s)) out)], None))))
      else (events s @ [Print NoWorks], None))"

text \<open>
  Lines 92 to 150. The body reads the names \<^verbatim>\<open>input_file\<close> and
  \<^verbatim>\<open>output_file\<close>, which are not its parameters: Python looks them up among the
  globals of the module. The result is what the run did, in order, and the exception that
  left the function, if one did.
\<close>

definition start :: run_state where
  "start = \<lparr>events = [], all_works = [], requests = 0\<rparr>"

definition fetch_orcid_works_from_excel ::
  "globals \<Rightarrow> world \<Rightarrow> (json \<Rightarrow> string) \<Rightarrow> string \<Rightarrow> string \<Rightarrow> rat
     \<Rightarrow> event list \<times> py_error option" where
  "fetch_orcid_works_from_excel G W R input_excel output_excel sleep_time =
     (case input_file G of
        None \<Rightarrow> ([Print (CannotRead NameError)], None)
      | Some path \<Rightarrow>
          (case read_excel W path of
             ReadError e \<Rightarrow> ([Print (CannotRead e)], None)
           | Frame df_input \<Rightarrow>
               if ''Name'' \<notin> set (columns df_input) \<or> ''ORCID'' \<notin> set (columns df_input)
               then ([Print MissingColumns], None)
               else
                 (case rows_loop W R sleep_time (columns df_input) (rows df_input) start of
                    (s, Some e) \<Rightarrow> (events s, Some e)
                  | (s, None) \<Rightarrow> export_works G W s)))"

section \<open>The rules of the specification\<close>

text \<open>
  The definitions of this section follow the words of the specification, not the code;
  the theorems below compare the code with them.
\<close>

text \<open>The record of a group from which nothing could be read: every field has its default.\<close>

definition default_work :: work where
  "default_work =
     [(''title'', NA), (''publication_date'', JNull), (''journal'', NA), (''doi'', NA)]"

text \<open>
  An optional substructure is available when its key is there and what it holds is
  neither null nor empty.
\<close>

definition unavailable :: "json option \<Rightarrow> bool" where
  "unavailable x = (case x of None \<Rightarrow> True | Some v \<Rightarrow> \<not> truthy v)"

text \<open>The \<^verbatim>\<open>value\<close> of a substructure, "N/A" when it has none.\<close>

definition value_or_NA :: "(string \<times> json) list \<Rightarrow> json" where
  "value_or_NA obj = (case map_of obj ''value'' of None \<Rightarrow> NA | Some v \<Rightarrow> v)"

text \<open>
  A part of the date (year, month, day) as text: the \<^verbatim>\<open>value\<close> of the part when the
  part is there and its value is neither null nor empty.
\<close>

definition part_text :: "(json \<Rightarrow> string) \<Rightarrow> (string \<times> json) list \<Rightarrow> string \<Rightarrow> string option" where
  "part_text R p part =
     (case map_of p part of
        Some (JObj obj) \<Rightarrow>
          (case map_of obj ''value'' of
             None \<Rightarrow> None
           | Some v \<Rightarrow> if truthy v then Some (py_str R v) else None)
      | _ \<Rightarrow> None)"

text \<open>A part of the date has the shape of the interface: absent, null or empty, or a substructure.\<close>

definition well_shaped :: "(string \<times> json) list \<Rightarrow> string \<Rightarrow> bool" where
  "well_shaped p part =
     (case map_of p part of
        None \<Rightarrow> True
      | Some (JObj obj) \<Rightarrow> True
      | Some v \<Rightarrow> \<not> truthy v)"

text \<open>Zero-padding to two digits.\<close>

definition two_digits :: "string \<Rightarrow> string" where
  "two_digits s = replicate (2 - length s) (CHR ''0'') @ s"

text \<open>
  The date of the specification: year-month-day, month and day "01" when absent and
  padded to two digits; no date without a year.
\<close>

definition spec_date :: "string option \<Rightarrow> string option \<Rightarrow> string option \<Rightarrow> json" where
  "spec_date year month day =
     (case year of
        None \<Rightarrow> JNull
      | Some y \<Rightarrow>
          JStr (y @ ''-'' @ two_digits (case month of None \<Rightarrow> ''01'' | Some m \<Rightarrow> m)
                  @ ''-'' @ two_digits (case day of None \<Rightarrow> ''01'' | Some d \<Rightarrow> d)))"

text \<open>A text that is a lone sign; Python's \<^verbatim>\<open>zfill\<close> pads it behind the sign.\<close>

definition lone_sign :: "string option \<Rightarrow> bool" where
  "lone_sign t = (t = Some ''+'' \<or> t = Some ''-'')"

text \<open>The type and the value of an entry of the external identifiers.\<close>

definition entry_type :: "(string \<times> json) list \<Rightarrow> json option" where
  "entry_type e = map_of e ''external-id-type''"

definition entry_value :: "(string \<times> json) list \<Rightarrow> json" where
  "entry_value e = (case map_of e ''external-id-value'' of None \<Rightarrow> NA | Some v \<Rightarrow> v)"

text \<open>The DOI of the specification: the value of the first entry of type "doi", else "N/A".\<close>

definition spec_doi :: "(string \<times> json) list list \<Rightarrow> json" where
  "spec_doi entries =
     (case find (\<lambda>e. entry_type e = Some (JStr ''doi'')) entries of
        None \<Rightarrow> NA
      | Some e \<Rightarrow> entry_value e)"

text \<open>An event that writes a file, and one that sends a request.\<close>

fun is_write :: "event \<Rightarrow> bool" where
  "is_write (Write path df) = True"
| "is_write e = False"

fun is_request :: "event \<Rightarrow> bool" where
  "is_request (Request orcid_id) = True"
| "is_request e = False"

section \<open>Example inputs\<close>

text \<open>Lines 154 and 155: the globals that the script binds before it calls the function.\<close>

definition script_globals :: globals where
  "script_globals =
     \<lparr>input_file = Some ''orcid_list.xlsx'', output_file = Some ''output_orcid_works.xlsx''\<rparr>"

text \<open>
  The end-to-end example of the specification: the reply for Alice holds one work with
  the title "Paper A", the year 2021 only, no journal title, one source named "Conf X" and
  the DOI "10.1/xyz"; the row of Bob has no identifier.
\<close>

definition paper_a :: json where
  "paper_a =
     JObj [(''group'', JArr [JObj [(''work-summary'', JArr [JObj
       [(''title'', JObj [(''title'', JObj [(''value'', JStr ''Paper A'')])]),
        (''publication-date'', JObj [(''year'', JObj [(''value'', JStr ''2021'')])]),
        (''source'', JArr [JObj [(''source-name'', JObj [(''value'', JStr ''Conf X'')])]]),
        (''external-ids'', JObj [(''external-id'', JArr
           [JObj [(''external-id-type'', JStr ''doi''),
                  (''external-id-value'', JStr ''10.1/xyz'')]])])]])]])]"

definition roster :: sheet where
  "roster =
     \<lparr>columns = [''Name'', ''ORCID''],
      rows = [[CStr ''  Alice '', CStr '' 0000-0001-1111-1111 ''], [CStr ''Bob'', CNaN]]\<rparr>"

definition alice_world :: world where
  "alice_world =
     \<lparr>read_excel = (\<lambda>path. if path = ''orcid_list.xlsx'' then Frame roster else ReadError OSError),
      http_get = (\<lambda>n orcid_id.
         if orcid_id = ''0000-0001-1111-1111'' then Json paper_a else RequestFailed),
      to_excel = (\<lambda>path. None),
      clock = (\<lambda>t. if 9223372036854775807 / 1000000000 < t then Some OverflowError
                   else if 9223372036 \<le> t then Some OSError else None)\<rparr>"

text \<open>A world in which every request fails, and one in which no file can be read.\<close>

definition offline_world :: world where
  "offline_world = alice_world\<lparr>http_get := (\<lambda>n orcid_id. RequestFailed)\<rparr>"

definition quiet_world :: world where
  "quiet_world =
     \<lparr>read_excel = (\<lambda>path. ReadError OSError),
      http_get = (\<lambda>n orcid_id. RequestFailed),
      to_excel = (\<lambda>path. None),
      clock = (\<lambda>t. if 9223372036854775807 / 1000000000 < t then Some OverflowError
                   else if 9223372036 \<le> t then Some OSError else None)\<rparr>"

text \<open>A reply whose work has a null where the text of the title should be.\<close>

definition null_title :: json where
  "null_title =
     JObj [(''group'', JArr [JObj [(''work-summary'', JArr [JObj
       [(''title'', JObj [(''title'', JObj [(''value'', JNull)])])]])]])]"

text \<open>A roster whose cells are not strings, and a world that knows the identifier 7.\<close>

definition numeric_world :: world where
  "numeric_world =
     alice_world\<lparr>http_get := (\<lambda>n orcid_id. if orcid_id = ''7'' then Json paper_a else RequestFailed)\<rparr>"

definition null_title_world :: world where
  "null_title_world = alice_world\<lparr>http_get := (\<lambda>n orcid_id. Json null_title)\<rparr>"

section \<open>The extraction: what it returns and where it raises\<close>

lemmas extraction_defs =
  extract_works_def work_of_group_def title_of_def publication_date_of_def journal_of_def
  doi_of_def date_part_def andthen_def py_or_def

lemma works_loop_length:
  "works_loop R gs acc = Inr ws \<Longrightarrow> length ws = length acc + length gs"
proof (induction gs arbitrary: acc)
  case Nil
  then show ?case by simp
next
  case (Cons g gs)
  then show ?case by (auto split: sum.splits)
qed

lemma work_of_group_no_summary:
  assumes "map_of g ''work-summary'' = None"
  shows "work_of_group R (JObj g) = Inr default_work"
  using assms by (simp add: extraction_defs default_work_def)

lemma works_loop_all_default:
  "\<forall>g \<in> set gs. work_of_group R g = Inr default_work \<Longrightarrow>
   works_loop R gs acc = Inr (acc @ replicate (length gs) default_work)"
proof (induction gs arbitrary: acc)
  case Nil
  then show ?case by simp
next
  case (Cons g gs)
  then show ?case by (simp add: replicate_app_Cons_same)
qed

text \<open>
  Claim C1. The specification asks that the extraction never raises on a malformed or
  missing optional field. The code raises on two of them: a group whose
  \<^verbatim>\<open>work-summary\<close> is the empty list makes \<^verbatim>\<open>[0]\<close> raise \<^verbatim>\<open>IndexError\<close>
  (line 40), and a summary whose \<^verbatim>\<open>title\<close> is null makes \<^verbatim>\<open>.get\<close> raise
  \<^verbatim>\<open>AttributeError\<close> (line 42). The theorem evaluates the extraction on the two
  documents.
\<close>

theorem extraction_raises_on_empty_summaries_and_null_title:
  "extract_works R (JObj [(''group'', JArr [JObj [(''work-summary'', JArr [])]])])
     = Inl IndexError \<and>
   extract_works R
     (JObj [(''group'', JArr [JObj [(''work-summary'', JArr [JObj [(''title'', JNull)]])]])])
     = Inl AttributeError"
  by (simp add: extraction_defs)

section \<open>The DOI\<close>

lemma doi_scan_objects: "doi_scan (map JObj es) = Inr (spec_doi es)"
proof (induction es)
  case Nil
  then show ?case by (simp add: spec_doi_def)
next
  case (Cons e es)
  then show ?case
    by (auto simp: spec_doi_def entry_type_def entry_value_def split: option.splits)
qed

lemma doi_scan_first_match:
  assumes "\<forall>a \<in> set pre. entry_type a \<noteq> Some (JStr ''doi'')"
    and "entry_type e = Some (JStr ''doi'')"
  shows "doi_scan (map JObj pre @ JObj e # post) = Inr (entry_value e)"
  using assms
proof (induction pre)
  case Nil
  then show ?case by (simp add: entry_type_def entry_value_def)
next
  case (Cons a pre)
  then show ?case by (auto simp: entry_type_def split: option.splits)
qed

text \<open>
  On summaries whose \<^verbatim>\<open>external-ids\<close> is absent or a substructure with a list of
  entry objects, the DOI follows the rule of the specification: the value of the first
  entry whose type is exactly "doi", "N/A" without such an entry; the entries of other
  types before it are passed over and whatever follows it is not looked at.
\<close>

lemma doi_on_entry_objects:
  "(map_of w ''external-ids'' = Some (JObj x)
      \<and> map_of x ''external-id'' = Some (JArr (map JObj es))
      \<longrightarrow> doi_of (JObj w) = Inr (spec_doi es)) \<and>
   (map_of w ''external-ids'' = Some (JObj x)
      \<and> map_of x ''external-id'' = Some (JArr (map JObj pre @ JObj e # post))
      \<and> (\<forall>a \<in> set pre. entry_type a \<noteq> Some (JStr ''doi''))
      \<and> entry_type e = Some (JStr ''doi'')
      \<longrightarrow> doi_of (JObj w) = Inr (entry_value e)) \<and>
   (map_of w ''external-ids'' = None \<longrightarrow> doi_of (JObj w) = Inr NA) \<and>
   (map_of w ''external-ids'' = Some (JObj x) \<and> map_of x ''external-id'' = None
      \<longrightarrow> doi_of (JObj w) = Inr NA)"
proof (intro conjI impI)
  assume a: "map_of w ''external-ids'' = Some (JObj x)
      \<and> map_of x ''external-id'' = Some (JArr (map JObj es))"
  then have "doi_of (JObj w) = doi_scan (map JObj es)"
    by (auto simp: doi_of_def andthen_def)
  then show "doi_of (JObj w) = Inr (spec_doi es)"
    by (simp add: doi_scan_objects)
next
  assume a: "map_of w ''external-ids'' = Some (JObj x)
      \<and> map_of x ''external-id'' = Some (JArr (map JObj pre @ JObj e # post))
      \<and> (\<forall>a \<in> set pre. entry_type a \<noteq> Some (JStr ''doi''))
      \<and> entry_type e = Some (JStr ''doi'')"
  then have "doi_of (JObj w) = doi_scan (map JObj pre @ JObj e # post)"
    by (auto simp: doi_of_def andthen_def)
  with a show "doi_of (JObj w) = Inr (entry_value e)"
    by (simp add: doi_scan_first_match)
next
  assume "map_of w ''external-ids'' = None"
  then show "doi_of (JObj w) = Inr NA"
    by (simp add: doi_of_def andthen_def)
next
  assume "map_of w ''external-ids'' = Some (JObj x) \<and> map_of x ''external-id'' = None"
  then show "doi_of (JObj w) = Inr NA"
    by (auto simp: doi_of_def andthen_def)
qed

text \<open>
  Claim C4. The specification asks that the DOI is "N/A" whenever there is no entry of
  type "doi". The code raises instead when the reply holds a null where the entries
  should be: with \<^verbatim>\<open>external-ids\<close> null, \<^verbatim>\<open>.get\<close> is called on
  \<^verbatim>\<open>None\<close> (line 68, \<^verbatim>\<open>AttributeError\<close>), and with
  \<^verbatim>\<open>external-id\<close> null the loop iterates over \<^verbatim>\<open>None\<close> (line 69,
  \<^verbatim>\<open>TypeError\<close>). The theorem evaluates the code on the two summaries.
\<close>

theorem doi_raises_on_null_external_ids:
  "doi_of (JObj [(''external-ids'', JNull)]) = Inl AttributeError \<and>
   doi_of (JObj [(''external-ids'', JObj [(''external-id'', JNull)])]) = Inl TypeError"
  by (simp add: doi_of_def andthen_def)

section \<open>Groups without summaries\<close>

text \<open>
  Claim C10. A group without the key \<^verbatim>\<open>work-summary\<close> is not skipped: it gives
  the record of defaults (title "N/A", no date, journal "N/A", DOI "N/A"). A document
  whose groups all lack the key gives one such record for each group, and whenever the
  extraction returns, it returns as many records as the document has groups.
\<close>

theorem group_without_summary_gives_default_record:
  "(map_of g ''work-summary'' = None \<longrightarrow> work_of_group R (JObj g) = Inr default_work) \<and>
   ((\<forall>g \<in> set gs. map_of g ''work-summary'' = None) \<longrightarrow>
      extract_works R (JObj [(''group'', JArr (map JObj gs))])
        = Inr (replicate (length gs) default_work)) \<and>
   (map_of d ''group'' = Some (JArr grps) \<and> extract_works R (JObj d) = Inr ws
      \<longrightarrow> length ws = length grps)"
proof (intro conjI impI)
  assume "map_of g ''work-summary'' = None"
  then show "work_of_group R (JObj g) = Inr default_work"
    by (rule work_of_group_no_summary)
next
  assume a: "\<forall>g \<in> set gs. map_of g ''work-summary'' = None"
  then have "\<forall>x \<in> set (map JObj gs). work_of_group R x = Inr default_work"
    by (auto simp: work_of_group_no_summary)
  then have "works_loop R (map JObj gs) []
               = Inr ([] @ replicate (length (map JObj gs)) default_work)"
    by (rule works_loop_all_default)
  then show "extract_works R (JObj [(''group'', JArr (map JObj gs))])
        = Inr (replicate (length gs) default_work)"
    by (simp add: extract_works_def andthen_def)
next
  assume "map_of d ''group'' = Some (JArr grps) \<and> extract_works R (JObj d) = Inr ws"
  then have "works_loop R grps [] = Inr ws"
    by (auto simp: extract_works_def andthen_def)
  then show "length ws = length grps"
    using works_loop_length by fastforce
qed

theorem group_without_summary_gives_default_record_witness:
  "work_of_group (\<lambda>v. []) (JObj [(''last-modified-date'', JNull)])
     = Inr [(''title'', JStr ''N/A''), (''publication_date'', JNull),
            (''journal'', JStr ''N/A''), (''doi'', JStr ''N/A'')] \<and>
   extract_works (\<lambda>v. []) (JObj [(''group'', JArr (map JObj [[], [(''last-modified-date'', JNull)]]))])
     = Inr [default_work, default_work] \<and>
   length [default_work] = length [JObj []]"
  using
    group_without_summary_gives_default_record
      [of "[(''last-modified-date'', JNull)]" "\<lambda>v. []" "[[], [(''last-modified-date'', JNull)]]"
          "[(''group'', JArr [JObj []])]" "[JObj []]" "[default_work]"]
  by (simp add: default_work_def NA_def extraction_defs)

section \<open>The publication date\<close>

lemma zfill_two_digits: "s \<noteq> ''+'' \<Longrightarrow> s \<noteq> ''-'' \<Longrightarrow> zfill 2 s = two_digits s"
proof (cases s)
  case Nil
  then show ?thesis by (simp add: zfill_def two_digits_def numeral_2_eq_2)
next
  case (Cons c cs)
  assume a: "s \<noteq> ''+''" "s \<noteq> ''-''"
  show ?thesis
  proof (cases cs)
    case Nil
    with Cons a show ?thesis by (simp add: zfill_def two_digits_def)
  next
    case (Cons d ds)
    with \<open>s = c # cs\<close> show ?thesis by (simp add: zfill_def two_digits_def)
  qed
qed

text \<open>The value that lines 47 to 49 read for a part, before the default is put in.\<close>

lemma date_part_shaped:
  assumes "well_shaped p part" and "truthy dflt"
  shows "date_part (JObj p) part dflt = Inr v \<Longrightarrow>
         truthy v \<and> py_str R v = (case part_text R p part of None \<Rightarrow> py_str R dflt | Some t \<Rightarrow> t)"
  using assms
  by (auto simp: well_shaped_def part_text_def date_part_def andthen_def py_or_def
      split: option.splits json.splits if_splits)

lemma date_part_returns:
  assumes "well_shaped p part"
  shows "\<exists>v. date_part (JObj p) part dflt = Inr v"
  using assms
  by (auto simp: well_shaped_def date_part_def andthen_def py_or_def
      split: option.splits json.splits)

lemma date_part_year:
  assumes "well_shaped p ''year''"
  shows "date_part (JObj p) ''year'' (JStr []) = Inr v \<Longrightarrow>
         (case part_text R p ''year'' of None \<Rightarrow> \<not> truthy v | Some t \<Rightarrow> truthy v \<and> py_str R v = t)"
  using assms
  by (auto simp: well_shaped_def part_text_def date_part_def andthen_def py_or_def
      split: option.splits json.splits if_splits)

lemma publication_date_shaped:
  assumes "map_of w ''publication-date'' = Some (JObj p)"
    and "well_shaped p ''year''" and "well_shaped p ''month''" and "well_shaped p ''day''"
    and "\<not> lone_sign (part_text R p ''month'')" and "\<not> lone_sign (part_text R p ''day'')"
  shows "publication_date_of R (JObj w) =
           Inr (spec_date (part_text R p ''year'') (part_text R p ''month'') (part_text R p ''day''))"
proof (cases "p = []")
  case True
  with assms(1) show ?thesis
    by (simp add: publication_date_of_def andthen_def spec_date_def part_text_def)
next
  case False
  obtain y where y: "date_part (JObj p) ''year'' (JStr []) = Inr y"
    using date_part_returns [OF assms(2)] by blast
  obtain m where m: "date_part (JObj p) ''month'' (JStr ''01'') = Inr m"
    using date_part_returns [OF assms(3)] by blast
  obtain d where d: "date_part (JObj p) ''day'' (JStr ''01'') = Inr d"
    using date_part_returns [OF assms(4)] by blast
  have ms: "py_str R m = (case part_text R p ''month'' of None \<Rightarrow> ''01'' | Some t \<Rightarrow> t)"
    using date_part_shaped [OF assms(3) _ m, of R] by (auto split: option.splits)
  have ds: "py_str R d = (case part_text R p ''day'' of None \<Rightarrow> ''01'' | Some t \<Rightarrow> t)"
    using date_part_shaped [OF assms(4) _ d, of R] by (auto split: option.splits)
  have mz: "zfill 2 (py_str R m) = two_digits (py_str R m)"
    using assms(5) ms by (intro zfill_two_digits) (auto simp: lone_sign_def split: option.splits)
  have dz: "zfill 2 (py_str R d) = two_digits (py_str R d)"
    using assms(6) ds by (intro zfill_two_digits) (auto simp: lone_sign_def split: option.splits)
  have ys: "case part_text R p ''year'' of None \<Rightarrow> \<not> truthy y | Some t \<Rightarrow> truthy y \<and> py_str R y = t"
    using date_part_year [OF assms(2) y] .
  have "publication_date_of R (JObj w) =
          (if truthy y then Inr (JStr (py_str R y @ ''-'' @ zfill 2 (py_str R m) @ ''-'' @ zfill 2 (py_str R d)))
           else Inr JNull)"
    using assms(1) False y m d by (simp add: publication_date_of_def andthen_def)
  also have "\<dots> = Inr (spec_date (part_text R p ''year'') (part_text R p ''month'') (part_text R p ''day''))"
    using ys ms ds mz dz by (auto simp: spec_date_def split: option.splits)
  finally show ?thesis .
qed

lemma publication_date_no_year:
  assumes "map_of w ''publication-date'' = Some (JObj p)"
    and "well_shaped p ''year''" and "well_shaped p ''month''" and "well_shaped p ''day''"
    and "part_text R p ''year'' = None"
  shows "publication_date_of R (JObj w) = Inr JNull"
proof (cases "p = []")
  case True
  with assms(1) show ?thesis
    by (simp add: publication_date_of_def andthen_def)
next
  case False
  obtain y where y: "date_part (JObj p) ''year'' (JStr []) = Inr y"
    using date_part_returns [OF assms(2)] by blast
  obtain m where m: "date_part (JObj p) ''month'' (JStr ''01'') = Inr m"
    using date_part_returns [OF assms(3)] by blast
  obtain d where d: "date_part (JObj p) ''day'' (JStr ''01'') = Inr d"
    using date_part_returns [OF assms(4)] by blast
  have "\<not> truthy y"
    using date_part_year [OF assms(2) y, of R] assms(5) by simp
  then show ?thesis
    using assms(1) False y m d by (simp add: publication_date_of_def andthen_def)
qed

text \<open>
  Claim C2. For a summary whose \<^verbatim>\<open>publication-date\<close> is a substructure with parts
  of the shape of the interface, the date that the code builds is the date of the
  specification: year-month-day, month and day "01" when they are absent and zero-padded
  to two digits (a month or day that is a lone sign apart, which Python pads behind the
  sign). Without a year, or with an empty one, there is no date, whatever month and day
  are; and there is none when the summary has no \<^verbatim>\<open>publication-date\<close>, or a null
  or empty one.
\<close>

theorem publication_date_follows_specification:
  "(unavailable (map_of w ''publication-date'') \<longrightarrow> publication_date_of R (JObj w) = Inr JNull) \<and>
   (map_of w ''publication-date'' = Some (JObj p)
      \<and> well_shaped p ''year'' \<and> well_shaped p ''month'' \<and> well_shaped p ''day''
      \<and> part_text R p ''year'' = None
      \<longrightarrow> publication_date_of R (JObj w) = Inr JNull) \<and>
   (map_of w ''publication-date'' = Some (JObj p)
      \<and> well_shaped p ''year'' \<and> well_shaped p ''month'' \<and> well_shaped p ''day''
      \<and> \<not> lone_sign (part_text R p ''month'') \<and> \<not> lone_sign (part_text R p ''day'')
      \<longrightarrow> publication_date_of R (JObj w)
            = Inr (spec_date (part_text R p ''year'') (part_text R p ''month'')
                     (part_text R p ''day'')))"
proof (intro conjI impI)
  assume "unavailable (map_of w ''publication-date'')"
  then show "publication_date_of R (JObj w) = Inr JNull"
    by (auto simp: unavailable_def publication_date_of_def andthen_def split: option.splits)
next
  assume "map_of w ''publication-date'' = Some (JObj p)
      \<and> well_shaped p ''year'' \<and> well_shaped p ''month'' \<and> well_shaped p ''day''
      \<and> part_text R p ''year'' = None"
  then show "publication_date_of R (JObj w) = Inr JNull"
    using publication_date_no_year by blast
next
  assume "map_of w ''publication-date'' = Some (JObj p)
      \<and> well_shaped p ''year'' \<and> well_shaped p ''month'' \<and> well_shaped p ''day''
      \<and> \<not> lone_sign (part_text R p ''month'') \<and> \<not> lone_sign (part_text R p ''day'')"
  then show "publication_date_of R (JObj w)
            = Inr (spec_date (part_text R p ''year'') (part_text R p ''month'')
                     (part_text R p ''day''))"
    using publication_date_shaped by blast
qed


theorem publication_date_follows_specification_witness:
  "publication_date_of (\<lambda>v. []) (JObj [(''publication-date'', JNull)]) = Inr JNull \<and>
   publication_date_of (\<lambda>v. [])
     (JObj [(''publication-date'',
            JObj [(''year'', JObj [(''value'', JStr [])]),
                  (''month'', JObj [(''value'', JStr ''03'')]),
                  (''day'', JObj [(''value'', JStr ''07'')])])]) = Inr JNull \<and>
   publication_date_of (\<lambda>v. [])
     (JObj [(''publication-date'',
            JObj [(''year'', JObj [(''value'', JInt 2023)]),
                  (''month'', JObj [(''value'', JInt 3)]),
                  (''day'', JObj [(''value'', JStr ''7'')])])]) = Inr (JStr ''2023-03-07'')"
  using
    publication_date_follows_specification
      [of "[(''publication-date'', JNull)]" "\<lambda>v. []" "[]"]
    publication_date_follows_specification
      [of "[(''publication-date'',
            JObj [(''year'', JObj [(''value'', JStr [])]),
                  (''month'', JObj [(''value'', JStr ''03'')]),
                  (''day'', JObj [(''value'', JStr ''07'')])])]"
          "\<lambda>v. []"
          "[(''year'', JObj [(''value'', JStr [])]),
            (''month'', JObj [(''value'', JStr ''03'')]),
            (''day'', JObj [(''value'', JStr ''07'')])]"]
    publication_date_follows_specification
      [of "[(''publication-date'',
            JObj [(''year'', JObj [(''value'', JInt 2023)]),
                  (''month'', JObj [(''value'', JInt 3)]),
                  (''day'', JObj [(''value'', JStr ''7'')])])]"
          "\<lambda>v. []"
          "[(''year'', JObj [(''value'', JInt 2023)]),
            (''month'', JObj [(''value'', JInt 3)]),
            (''day'', JObj [(''value'', JStr ''7'')])]"]
  by (simp add: unavailable_def well_shaped_def part_text_def lone_sign_def spec_date_def
      two_digits_def show_int_def show_nat.simps)

section \<open>The journal\<close>

lemma py_contains_obj: "py_contains k (JObj kvs) = Inr (map_of kvs k \<noteq> None)"
  by (simp add: map_of_eq_None_iff)

lemma journal_title_wins:
  assumes "map_of w ''journal-title'' = Some (JObj jt)" and "jt \<noteq> []"
  shows "journal_of (JObj w) = Inr (value_or_NA jt)"
  using assms
  by (simp add: journal_of_def andthen_def value_or_NA_def py_contains_obj
      del: py_contains.simps)

lemma journal_item:
  "unavailable (map_of w ''journal-title'') \<Longrightarrow>
   journal_of (JObj w) =
     andthen (py_get (JObj w) ''source'' (JArr [])) (\<lambda>source_names.
       if truthy source_names then
         andthen (py_first source_names) (\<lambda>source.
         andthen (py_contains ''source-name'' source) (\<lambda>has_sn.
         if has_sn then
           andthen (py_item source ''source-name'') (\<lambda>sn. py_get sn ''value'' NA)
         else Inr NA))
       else Inr NA)"
  by (cases "map_of w ''journal-title''")
     (simp_all add: journal_of_def andthen_def unavailable_def py_contains_obj
      del: py_contains.simps)

text \<open>
  On summaries of the shape of the interface the journal follows the rule of the
  specification: a \<^verbatim>\<open>journal-title\<close> that is there and not empty gives its
  \<^verbatim>\<open>value\<close>, whatever \<^verbatim>\<open>source\<close> holds; otherwise the first entry of the list
  \<^verbatim>\<open>source\<close> gives its \<^verbatim>\<open>source-name.value\<close>, and the journal is "N/A" when
  that entry has no \<^verbatim>\<open>source-name\<close> and when there is no source.
\<close>

lemma journal_on_well_shaped_summary:
  "(map_of w ''journal-title'' = Some (JObj jt) \<and> jt \<noteq> []
      \<longrightarrow> journal_of (JObj w) = Inr (value_or_NA jt)) \<and>
   (unavailable (map_of w ''journal-title'')
      \<and> map_of w ''source'' = Some (JArr (JObj src # others))
      \<and> map_of src ''source-name'' = Some (JObj sn)
      \<longrightarrow> journal_of (JObj w) = Inr (value_or_NA sn)) \<and>
   (unavailable (map_of w ''journal-title'')
      \<and> map_of w ''source'' = Some (JArr (JObj src # others))
      \<and> map_of src ''source-name'' = None
      \<longrightarrow> journal_of (JObj w) = Inr NA) \<and>
   (unavailable (map_of w ''journal-title'') \<and> unavailable (map_of w ''source'')
      \<longrightarrow> journal_of (JObj w) = Inr NA)"
proof (intro conjI impI)
  assume "map_of w ''journal-title'' = Some (JObj jt) \<and> jt \<noteq> []"
  then show "journal_of (JObj w) = Inr (value_or_NA jt)"
    using journal_title_wins by blast
next
  assume a: "unavailable (map_of w ''journal-title'')
      \<and> map_of w ''source'' = Some (JArr (JObj src # others))
      \<and> map_of src ''source-name'' = Some (JObj sn)"
  then show "journal_of (JObj w) = Inr (value_or_NA sn)"
    by (simp add: journal_item andthen_def value_or_NA_def py_contains_obj
        del: py_contains.simps)
next
  assume a: "unavailable (map_of w ''journal-title'')
      \<and> map_of w ''source'' = Some (JArr (JObj src # others))
      \<and> map_of src ''source-name'' = None"
  then show "journal_of (JObj w) = Inr NA"
    by (simp add: journal_item andthen_def py_contains_obj del: py_contains.simps)
next
  assume a: "unavailable (map_of w ''journal-title'') \<and> unavailable (map_of w ''source'')"
  then show "journal_of (JObj w) = Inr NA"
    by (cases "map_of w ''source''") (simp_all add: journal_item andthen_def unavailable_def)
qed

text \<open>
  Claim C3. The specification asks that the journal is "N/A" when neither a journal title
  nor a source name is available. The code raises instead when the first entry of
  \<^verbatim>\<open>source\<close> holds a null \<^verbatim>\<open>source-name\<close>: the key is there, so line 65 calls
  \<^verbatim>\<open>.get\<close> on \<^verbatim>\<open>None\<close> (\<^verbatim>\<open>AttributeError\<close>), whereas line 58 does guard
  a null \<^verbatim>\<open>journal-title\<close>. The theorem evaluates the code on such a
  summary, without a journal title and with a null one.
\<close>

theorem journal_raises_on_null_source_name:
  "journal_of (JObj [(''source'', JArr [JObj [(''source-name'', JNull)]])])
     = Inl AttributeError \<and>
   journal_of (JObj [(''journal-title'', JNull),
                     (''source'', JArr [JObj [(''source-name'', JNull)]])])
     = Inl AttributeError"
  by (simp add: journal_of_def andthen_def)

section \<open>The rows of the roster\<close>

lemma lower_Nil_iff: "lower x = [] \<longleftrightarrow> x = []"
  by (simp add: lower_def)

lemma invalid_orcid_iff:
  "invalid_orcid orcid \<longleftrightarrow> lower orcid \<in> set ['''', ''nan'', ''none'', ''null'']"
  by (auto simp: invalid_orcid_def lower_Nil_iff)

lemma rows_loop_skip:
  assumes "invalid_orcid (strip (str_cell (cell_at cols row ''ORCID'')))"
  shows "rows_loop W R t cols (row # rest) s =
         rows_loop W R t cols rest
           (s\<lparr>events := events s @ [Print (SkipInvalid (strip (str_cell (cell_at cols row ''Name''))))]\<rparr>)"
  using assms by (simp add: emit_def)

lemma strip_all_space:
  assumes "\<forall>c \<in> set raw. is_space c"
  shows "strip raw = []"
proof -
  have d: "dropWhile is_space raw = []"
    using assms by simp
  show ?thesis by (simp only: strip_def d rev.simps dropWhile.simps)
qed

lemma strip_decomposition:
  "raw = takeWhile is_space raw @ strip raw
           @ rev (takeWhile is_space (rev (dropWhile is_space raw)))"
proof -
  let ?d = "dropWhile is_space raw"
  have "?d = rev (takeWhile is_space (rev ?d) @ dropWhile is_space (rev ?d))"
    by (simp only: takeWhile_dropWhile_id rev_rev_ident)
  then have "?d = rev (dropWhile is_space (rev ?d)) @ rev (takeWhile is_space (rev ?d))"
    by (simp only: rev_append)
  then have "?d = strip raw @ rev (takeWhile is_space (rev ?d))"
    unfolding strip_def .
  moreover have "raw = takeWhile is_space raw @ ?d"
    by (simp only: takeWhile_dropWhile_id)
  ultimately show ?thesis by metis
qed

lemma strip_edges:
  assumes "strip raw \<noteq> []"
  shows "\<not> is_space (hd (strip raw)) \<and> \<not> is_space (last (strip raw))"
proof -
  let ?d = "dropWhile is_space raw"
  let ?e = "dropWhile is_space (rev ?d)"
  have e: "?e \<noteq> []" using assms by (simp add: strip_def)
  then have "\<not> is_space (hd ?e)" by (rule hd_dropWhile)
  then have l: "\<not> is_space (last (strip raw))"
    using e by (simp add: strip_def last_rev)
  have d: "?d \<noteq> []"
    using e by (cases "dropWhile is_space raw = []") simp_all
  then have hd_d: "\<not> is_space (hd ?d)" by (rule hd_dropWhile)
  have "?d = strip raw @ rev (takeWhile is_space (rev ?d))"
    using strip_decomposition [of raw] by (metis takeWhile_dropWhile_id same_append_eq)
  then have "hd ?d = hd (strip raw)"
    using assms by (metis hd_append2)
  with hd_d l show ?thesis by simp
qed

lemma map_of_dict_set_same: "map_of (dict_set w k v) k = Some v"
  by (induction w) auto

lemma map_of_dict_set_other: "k' \<noteq> k \<Longrightarrow> map_of (dict_set w k v) k' = map_of w k'"
  by (induction w) auto

lemma tag_lookup:
  "map_of (tag name orcid w) ''Name'' = Some (JStr name) \<and>
   map_of (tag name orcid w) ''ORCID'' = Some (JStr orcid)"
  by (simp add: tag_def map_of_dict_set_same map_of_dict_set_other)

lemma tag_keeps:
  "k \<noteq> ''Name'' \<Longrightarrow> k \<noteq> ''ORCID'' \<Longrightarrow> map_of (tag name orcid w) k = map_of w k"
  by (simp add: tag_def map_of_dict_set_other)

lemma rows_loop_fetch:
  assumes "name = strip (str_cell (cell_at cols row ''Name''))"
    and "orcid = strip (str_cell (cell_at cols row ''ORCID''))"
    and "\<not> invalid_orcid orcid"
    and "http_get W (requests s) orcid = Json data"
    and "extract_works R data = Inr works"
    and "0 \<le> t" and "clock W t = None"
  shows "rows_loop W R t cols (row # rest) s =
         rows_loop W R t cols rest
           \<lparr>events = events s @ [Print (Getting name orcid), Request orcid,
                                 Print (Found (length works)), Sleep t],
            all_works = all_works s @ map (tag name orcid) works,
            requests = Suc (requests s)\<rparr>"
  using assms by (cases s) (simp add: emit_def get_orcid_works_def Let_def time_sleep_def)

text \<open>
  Claim C6. A row whose identifier, once stripped and put in lower case, is empty or one
  of "nan", "none", "null" is skipped: the loop goes on with the next row from a state
  that differs from the one before only by the printed notice, so no request was sent, no
  record was added, and no exception was raised.
\<close>

theorem invalid_identifier_row_is_skipped:
  "lower (strip (str_cell (cell_at cols row ''ORCID''))) \<in> set ['''', ''nan'', ''none'', ''null'']
   \<longrightarrow> rows_loop W R t cols (row # rest) s =
       rows_loop W R t cols rest
         (s\<lparr>events := events s
                 @ [Print (SkipInvalid (strip (str_cell (cell_at cols row ''Name''))))]\<rparr>)"
  using rows_loop_skip invalid_orcid_iff by blast

theorem invalid_identifier_row_is_skipped_witness:
  "rows_loop quiet_world (\<lambda>v. []) (1 / 2) [''Name'', ''ORCID''] [[CStr ''Bob'', CNaN]] start
     = (\<lparr>events = [Print (SkipInvalid ''Bob'')], all_works = [], requests = 0\<rparr>, None) \<and>
   rows_loop quiet_world (\<lambda>v. []) (1 / 2) [''Name'', ''ORCID''] [[CStr ''Carol'', CStr ''None'']] start
     = (\<lparr>events = [Print (SkipInvalid ''Carol'')], all_works = [], requests = 0\<rparr>, None)"
proof -
  have h1: "lower (strip (str_cell (cell_at [''Name'', ''ORCID''] [CStr ''Bob'', CNaN] ''ORCID'')))
              \<in> set ['''', ''nan'', ''none'', ''null'']"
    by code_simp
  have h2: "lower (strip (str_cell (cell_at [''Name'', ''ORCID''] [CStr ''Carol'', CStr ''None''] ''ORCID'')))
              \<in> set ['''', ''nan'', ''none'', ''null'']"
    by code_simp
  have n1: "strip (str_cell (cell_at [''Name'', ''ORCID''] [CStr ''Bob'', CNaN] ''Name'')) = ''Bob''"
    by code_simp
  have n2: "strip (str_cell (cell_at [''Name'', ''ORCID''] [CStr ''Carol'', CStr ''None''] ''Name'')) = ''Carol''"
    by code_simp
  show ?thesis
    using invalid_identifier_row_is_skipped [THEN mp, OF h1, of quiet_world "\<lambda>v. []" "1 / 2" "[]" start]
      invalid_identifier_row_is_skipped [THEN mp, OF h2, of quiet_world "\<lambda>v. []" "1 / 2" "[]" start]
    by (simp only: n1 n2) (simp add: start_def)
qed

text \<open>
  Claim C9. The name and the identifier of a row are the cells converted to strings
  (\<^verbatim>\<open>str\<close>: a string as it is, an integer in decimal, the missing value as "nan")
  with the white space at both ends removed, and it is these that are tested and
  attached: an identifier of white space only is skipped as empty; for a valid row the
  request is sent for the stripped identifier, and when \<^verbatim>\<open>time.sleep\<close> returns the
  loop goes on with every record of the reply carrying the stripped name and identifier
  under \<^verbatim>\<open>Name\<close> and \<^verbatim>\<open>ORCID\<close>. What \<^verbatim>\<open>strip\<close> returns is the text
  between a prefix and a suffix of white space, and it neither begins nor ends with white
  space.
\<close>

theorem name_and_identifier_are_stripped:
  "((\<forall>c \<in> set (str_cell (cell_at cols row ''ORCID'')). is_space c)
      \<longrightarrow> rows_loop W R t cols (row # rest) s =
          rows_loop W R t cols rest
            (s\<lparr>events := events s
                    @ [Print (SkipInvalid (strip (str_cell (cell_at cols row ''Name''))))]\<rparr>)) \<and>
   (name = strip (str_cell (cell_at cols row ''Name''))
      \<and> orcid = strip (str_cell (cell_at cols row ''ORCID''))
      \<and> \<not> invalid_orcid orcid
      \<and> http_get W (requests s) orcid = Json data
      \<and> extract_works R data = Inr works
      \<and> 0 \<le> t \<and> clock W t = None
      \<longrightarrow> rows_loop W R t cols (row # rest) s =
          rows_loop W R t cols rest
            \<lparr>events = events s @ [Print (Getting name orcid), Request orcid,
                                  Print (Found (length works)), Sleep t],
             all_works = all_works s @ map (tag name orcid) works,
             requests = Suc (requests s)\<rparr>) \<and>
   map_of (tag name orcid w) ''Name'' = Some (JStr name) \<and>
   map_of (tag name orcid w) ''ORCID'' = Some (JStr orcid) \<and>
   (\<exists>pre post. raw = pre @ strip raw @ post \<and> list_all is_space pre \<and> list_all is_space post) \<and>
   (strip raw \<noteq> [] \<longrightarrow> \<not> is_space (hd (strip raw)) \<and> \<not> is_space (last (strip raw))) \<and>
   str_cell (CStr txt) = txt \<and>
   str_cell (CInt i) = (if i < 0 then CHR ''-'' # show_nat (nat (- i)) else show_nat (nat i)) \<and>
   str_cell (CBool b) = (if b then ''True'' else ''False'') \<and>
   str_cell CNaN = ''nan'' \<and>
   str_cell (COther txt) = txt \<and>
   (n < 10 \<longrightarrow> show_nat n = [''0123456789'' ! n]) \<and>
   (10 \<le> n \<longrightarrow> show_nat n = show_nat (n div 10) @ [''0123456789'' ! (n mod 10)])"
proof (intro conjI impI)
  assume "\<forall>c \<in> set (str_cell (cell_at cols row ''ORCID'')). is_space c"
  then have "strip (str_cell (cell_at cols row ''ORCID'')) = []"
    by (rule strip_all_space)
  then have "invalid_orcid (strip (str_cell (cell_at cols row ''ORCID'')))"
    by (simp add: invalid_orcid_def)
  then show "rows_loop W R t cols (row # rest) s =
          rows_loop W R t cols rest
            (s\<lparr>events := events s
                    @ [Print (SkipInvalid (strip (str_cell (cell_at cols row ''Name''))))]\<rparr>)"
    by (rule rows_loop_skip)
next
  assume "name = strip (str_cell (cell_at cols row ''Name''))
      \<and> orcid = strip (str_cell (cell_at cols row ''ORCID''))
      \<and> \<not> invalid_orcid orcid
      \<and> http_get W (requests s) orcid = Json data
      \<and> extract_works R data = Inr works
      \<and> 0 \<le> t \<and> clock W t = None"
  then show "rows_loop W R t cols (row # rest) s =
          rows_loop W R t cols rest
            \<lparr>events = events s @ [Print (Getting name orcid), Request orcid,
                                  Print (Found (length works)), Sleep t],
             all_works = all_works s @ map (tag name orcid) works,
             requests = Suc (requests s)\<rparr>"
    using rows_loop_fetch by blast
next
  show "map_of (tag name orcid w) ''Name'' = Some (JStr name)"
    by (simp add: tag_lookup)
next
  show "map_of (tag name orcid w) ''ORCID'' = Some (JStr orcid)"
    by (simp add: tag_lookup)
next
  have "list_all is_space (takeWhile is_space raw)"
    by (auto simp: list_all_iff dest: set_takeWhileD)
  moreover have "list_all is_space (rev (takeWhile is_space (rev (dropWhile is_space raw))))"
    by (auto simp: list_all_iff dest: set_takeWhileD)
  ultimately show "\<exists>pre post. raw = pre @ strip raw @ post
      \<and> list_all is_space pre \<and> list_all is_space post"
    using strip_decomposition [of raw] by blast
next
  assume "strip raw \<noteq> []"
  then show "\<not> is_space (hd (strip raw))" using strip_edges by blast
next
  assume "strip raw \<noteq> []"
  then show "\<not> is_space (last (strip raw))" using strip_edges by blast
next
  show "str_cell (CInt i) = (if i < 0 then CHR ''-'' # show_nat (nat (- i)) else show_nat (nat i))"
    by (simp add: show_int_def)
next
  assume "n < 10"
  then show "show_nat n = [''0123456789'' ! n]"
    by (subst show_nat.simps) simp
next
  assume "10 \<le> n"
  then show "show_nat n = show_nat (n div 10) @ [''0123456789'' ! (n mod 10)]"
    by (subst show_nat.simps) simp
qed simp_all

theorem name_and_identifier_are_stripped_witness:
  "rows_loop alice_world (\<lambda>v. []) (1 / 2) [''Name'', ''ORCID'']
       [[CInt (- 42), CStr [CHR '' '', CHR 0x09, CHR '' '']]] start
     = (\<lparr>events = [Print (SkipInvalid ''-42'')], all_works = [], requests = 0\<rparr>, None) \<and>
   rows_loop numeric_world (\<lambda>v. []) (1 / 2) [''Name'', ''ORCID''] [[CNaN, CInt 7]] start
     = (\<lparr>events = [Print (Getting ''nan'' ''7''), Request ''7'', Print (Found 1), Sleep (1 / 2)],
         all_works = [[(''title'', JStr ''Paper A''), (''publication_date'', JStr ''2021-01-01''),
                       (''journal'', JStr ''Conf X''), (''doi'', JStr ''10.1/xyz''),
                       (''Name'', JStr ''nan''), (''ORCID'', JStr ''7'')]],
         requests = 1\<rparr>, None) \<and>
   rows_loop alice_world (\<lambda>v. []) (1 / 2) [''Name'', ''ORCID'']
       [[CStr ''  Alice '', CStr '' 0000-0001-1111-1111 '']] start
     = (\<lparr>events = [Print (Getting ''Alice'' ''0000-0001-1111-1111''),
                   Request ''0000-0001-1111-1111'', Print (Found 1), Sleep (1 / 2)],
         all_works = [[(''title'', JStr ''Paper A''), (''publication_date'', JStr ''2021-01-01''),
                       (''journal'', JStr ''Conf X''), (''doi'', JStr ''10.1/xyz''),
                       (''Name'', JStr ''Alice''), (''ORCID'', JStr ''0000-0001-1111-1111'')]],
         requests = 1\<rparr>, None) \<and>
   \<not> is_space (hd (strip ''  Alice '')) \<and> \<not> is_space (last (strip ''  Alice '')) \<and>
   show_nat 7 = ''7'' \<and> show_nat 42 = ''42''"
proof -
  let ?cols = "[''Name'', ''ORCID'']"
  let ?blank = "[CInt (- 42), CStr [CHR '' '', CHR 0x09, CHR '' '']]"
  let ?seven = "[CNaN, CInt 7]"
  let ?alice = "[CStr ''  Alice '', CStr '' 0000-0001-1111-1111 '']"
  let ?paper = "[[(''title'', JStr ''Paper A''), (''publication_date'', JStr ''2021-01-01''),
                  (''journal'', JStr ''Conf X''), (''doi'', JStr ''10.1/xyz'')]]"
  have h1: "\<forall>c \<in> set (str_cell (cell_at ?cols ?blank ''ORCID'')). is_space c"
    by code_simp
  have n1: "strip (str_cell (cell_at ?cols ?blank ''Name'')) = ''-42''"
    by code_simp
  have n2: "''Alice'' = strip (str_cell (cell_at ?cols ?alice ''Name''))"
    by code_simp
  have o2: "''0000-0001-1111-1111'' = strip (str_cell (cell_at ?cols ?alice ''ORCID''))"
    by code_simp
  have v2: "\<not> invalid_orcid ''0000-0001-1111-1111''"
    by code_simp
  have g2: "http_get alice_world (requests start) ''0000-0001-1111-1111'' = Json paper_a"
    by (simp add: alice_world_def)
  have n3: "''nan'' = strip (str_cell (cell_at ?cols ?seven ''Name''))"
    by code_simp
  have o3: "''7'' = strip (str_cell (cell_at ?cols ?seven ''ORCID''))"
    by code_simp
  have v3: "\<not> invalid_orcid ''7''"
    by code_simp
  have g3: "http_get numeric_world (requests start) ''7'' = Json paper_a"
    by (simp add: numeric_world_def)
  have e2: "extract_works (\<lambda>v. []) paper_a = Inr ?paper"
    by code_simp
  have t2: "(0::rat) \<le> 1 / 2" by simp
  have k2: "clock alice_world (1 / 2) = None"
    by (simp add: alice_world_def)
  have k3: "clock numeric_world (1 / 2) = None"
    by (simp add: numeric_world_def alice_world_def)
  have s2: "strip ''  Alice '' \<noteq> []" by code_simp
  have d1: "(7::nat) < 10" by simp
  have d2: "(10::nat) \<le> 42" by simp
  have d3: "(4::nat) < 10" by simp
  note T = name_and_identifier_are_stripped
  note T6 = T [THEN conjunct2, THEN conjunct2, THEN conjunct2, THEN conjunct2, THEN conjunct2]
  note T11 = T6 [THEN conjunct2, THEN conjunct2, THEN conjunct2, THEN conjunct2, THEN conjunct2,
              THEN conjunct2]
  have a: "rows_loop alice_world (\<lambda>v. []) (1 / 2) ?cols [?blank] start
           = rows_loop alice_world (\<lambda>v. []) (1 / 2) ?cols []
               (start\<lparr>events := events start @ [Print (SkipInvalid ''-42'')]\<rparr>)"
    using T [THEN conjunct1, THEN mp, OF h1, of alice_world "\<lambda>v. []" "1 / 2" "[]" start]
    by (simp only: n1)
  have b: "rows_loop alice_world (\<lambda>v. []) (1 / 2) ?cols [?alice] start
           = rows_loop alice_world (\<lambda>v. []) (1 / 2) ?cols []
               \<lparr>events = events start @ [Print (Getting ''Alice'' ''0000-0001-1111-1111''),
                   Request ''0000-0001-1111-1111'', Print (Found (length ?paper)), Sleep (1 / 2)],
                 all_works = all_works start @ map (tag ''Alice'' ''0000-0001-1111-1111'') ?paper,
                 requests = Suc (requests start)\<rparr>"
    using T [THEN conjunct2, THEN conjunct1, THEN mp, OF conjI [OF n2 conjI [OF o2 conjI [OF v2
              conjI [OF g2 conjI [OF e2 conjI [OF t2 k2]]]]]], of "[]"]
    by simp
  have b': "rows_loop numeric_world (\<lambda>v. []) (1 / 2) ?cols [?seven] start
           = rows_loop numeric_world (\<lambda>v. []) (1 / 2) ?cols []
               \<lparr>events = events start @ [Print (Getting ''nan'' ''7''),
                   Request ''7'', Print (Found (length ?paper)), Sleep (1 / 2)],
                 all_works = all_works start @ map (tag ''nan'' ''7'') ?paper,
                 requests = Suc (requests start)\<rparr>"
    using T [THEN conjunct2, THEN conjunct1, THEN mp, OF conjI [OF n3 conjI [OF o3 conjI [OF v3
              conjI [OF g3 conjI [OF e2 conjI [OF t2 k3]]]]]], of "[]"]
    by simp
  have c: "\<not> is_space (hd (strip ''  Alice '')) \<and> \<not> is_space (last (strip ''  Alice ''))"
    using T6 [THEN conjunct1, THEN mp, OF s2] by simp
  have d: "show_nat 7 = ''7''"
    using T11 [THEN conjunct1, THEN mp, OF d1] by simp
  have e: "show_nat 42 = ''42''"
    using T11 [THEN conjunct2, THEN mp, OF d2] T11 [THEN conjunct1, THEN mp, OF d3] by simp
  show ?thesis
    using a b b' c d e by (simp add: start_def tag_def)
qed

section \<open>The run as a whole\<close>

lemma get_orcid_works_no_write:
  assumes "get_orcid_works W R orcid_id s = (s', r)"
    and "list_all (\<lambda>e. \<not> is_write e) (events s)"
  shows "list_all (\<lambda>e. \<not> is_write e) (events s')"
  using assms
  by (auto simp: get_orcid_works_def emit_def Let_def split: http_result.splits)

lemma rows_loop_no_write:
  "rows_loop W R t cols rws s = (s', r) \<Longrightarrow> list_all (\<lambda>e. \<not> is_write e) (events s)
   \<Longrightarrow> list_all (\<lambda>e. \<not> is_write e) (events s')"
proof (induction rws arbitrary: s)
  case Nil
  then show ?case by simp
next
  case (Cons row rest)
  let ?name = "strip (str_cell (cell_at cols row ''Name''))"
  let ?orcid = "strip (str_cell (cell_at cols row ''ORCID''))"
  show ?case
  proof (cases "invalid_orcid ?orcid")
    case True
    with Cons.prems have "rows_loop W R t cols rest (emit (Print (SkipInvalid ?name)) s) = (s', r)"
      by simp
    moreover have "list_all (\<lambda>e. \<not> is_write e) (events (emit (Print (SkipInvalid ?name)) s))"
      using Cons.prems(2) by (simp add: emit_def)
    ultimately show ?thesis by (rule Cons.IH)
  next
    case False
    obtain s1 res where g: "get_orcid_works W R ?orcid (emit (Print (Getting ?name ?orcid)) s) = (s1, res)"
      by (cases "get_orcid_works W R ?orcid (emit (Print (Getting ?name ?orcid)) s)") auto
    have "list_all (\<lambda>e. \<not> is_write e) (events (emit (Print (Getting ?name ?orcid)) s))"
      using Cons.prems(2) by (simp add: emit_def)
    with g have s1: "list_all (\<lambda>e. \<not> is_write e) (events s1)"
      by (rule get_orcid_works_no_write)
    show ?thesis
    proof (cases res)
      case (Inl e)
      with Cons.prems(1) False g have "s' = s1" by simp
      with s1 show ?thesis by simp
    next
      case (Inr works)
      let ?s2 = "emit (Print (Found (length works)))
                   (s1\<lparr>all_works := all_works s1 @ map (tag ?name ?orcid) works\<rparr>)"
      have s2: "list_all (\<lambda>e. \<not> is_write e) (events ?s2)"
        using s1 by (simp add: emit_def)
      show ?thesis
      proof (cases "time_sleep W t")
        case (Some e)
        with Cons.prems(1) False g Inr have "s' = ?s2" by (simp add: Let_def)
        with s2 show ?thesis by simp
      next
        case None
        with Cons.prems(1) \<open>\<not> invalid_orcid ?orcid\<close> g Inr
        have "rows_loop W R t cols rest (emit (Sleep t) ?s2) = (s', r)"
          by (simp add: Let_def)
        moreover have "list_all (\<lambda>e. \<not> is_write e) (events (emit (Sleep t) ?s2))"
          using s2 by (simp add: emit_def)
        ultimately show ?thesis by (rule Cons.IH)
      qed
    qed
  qed
qed

lemma export_nothing:
  "all_works s = [] \<Longrightarrow> export_works G W s = (events s @ [Print NoWorks], None)"
  by (simp add: export_works_def)

lemma run_reaches_export:
  assumes "input_file G = Some path" and "read_excel W path = Frame df"
    and "''Name'' \<in> set (columns df)" and "''ORCID'' \<in> set (columns df)"
    and "rows_loop W R t (columns df) (rows df) start = (s, None)"
  shows "fetch_orcid_works_from_excel G W R a b t = export_works G W s"
  using assms by (simp add: fetch_orcid_works_from_excel_def)

text \<open>
  Claim C7. When the accumulator is empty after the loop, the export prints the notice
  that there is nothing to export and returns, whatever the globals and the world are: the
  run ends without an exception, its events are those of the loop followed by the
  notice, and none of them writes a file. With an empty roster the notice is the only
  event of the run.
\<close>

theorem empty_accumulator_writes_nothing:
  "(all_works s = [] \<longrightarrow> export_works G W s = (events s @ [Print NoWorks], None)) \<and>
   (input_file G = Some path \<and> read_excel W path = Frame df
      \<and> ''Name'' \<in> set (columns df) \<and> ''ORCID'' \<in> set (columns df)
      \<and> rows_loop W R t (columns df) (rows df) start = (s, None) \<and> all_works s = []
      \<longrightarrow> fetch_orcid_works_from_excel G W R a b t = (events s @ [Print NoWorks], None)
          \<and> list_all (\<lambda>e. \<not> is_write e) (events s @ [Print NoWorks])) \<and>
   (input_file G = Some path \<and> read_excel W path = Frame df
      \<and> ''Name'' \<in> set (columns df) \<and> ''ORCID'' \<in> set (columns df) \<and> rows df = []
      \<longrightarrow> fetch_orcid_works_from_excel G W R a b t = ([Print NoWorks], None))"
proof (intro conjI impI)
  assume "all_works s = []"
  then show "export_works G W s = (events s @ [Print NoWorks], None)"
    by (rule export_nothing)
next
  assume a: "input_file G = Some path \<and> read_excel W path = Frame df
      \<and> ''Name'' \<in> set (columns df) \<and> ''ORCID'' \<in> set (columns df)
      \<and> rows_loop W R t (columns df) (rows df) start = (s, None) \<and> all_works s = []"
  then have "fetch_orcid_works_from_excel G W R a b t = export_works G W s"
    using run_reaches_export by blast
  with a show "fetch_orcid_works_from_excel G W R a b t = (events s @ [Print NoWorks], None)"
    by (simp add: export_nothing)
next
  assume a: "input_file G = Some path \<and> read_excel W path = Frame df
      \<and> ''Name'' \<in> set (columns df) \<and> ''ORCID'' \<in> set (columns df)
      \<and> rows_loop W R t (columns df) (rows df) start = (s, None) \<and> all_works s = []"
  have "list_all (\<lambda>e. \<not> is_write e) (events start)"
    by (simp add: start_def)
  with a have "list_all (\<lambda>e. \<not> is_write e) (events s)"
    using rows_loop_no_write by blast
  then show "list_all (\<lambda>e. \<not> is_write e) (events s @ [Print NoWorks])"
    by simp
next
  assume a: "input_file G = Some path \<and> read_excel W path = Frame df
      \<and> ''Name'' \<in> set (columns df) \<and> ''ORCID'' \<in> set (columns df) \<and> rows df = []"
  then have "rows_loop W R t (columns df) (rows df) start = (start, None)"
    by simp
  with a have "fetch_orcid_works_from_excel G W R a b t = export_works G W start"
    using run_reaches_export by blast
  then show "fetch_orcid_works_from_excel G W R a b t = ([Print NoWorks], None)"
    by (simp add: export_nothing start_def)
qed

lemma offline_run:
  "rows_loop offline_world (\<lambda>v. []) (1 / 2) (columns roster) (rows roster) start
     = (\<lparr>events = [Print (Getting ''Alice'' ''0000-0001-1111-1111''),
                    Request ''0000-0001-1111-1111'',
                    Print (FailToRequest ''0000-0001-1111-1111''), Print (Found 0),
                    Sleep (1 / 2), Print (SkipInvalid ''Bob'')],
         all_works = [], requests = 1\<rparr>, None)"
  by code_simp

theorem empty_accumulator_writes_nothing_witness:
  "export_works script_globals offline_world start = ([Print NoWorks], None) \<and>
   fetch_orcid_works_from_excel script_globals offline_world (\<lambda>v. []) ''in.xlsx'' ''out.xlsx'' (1 / 2)
     = ([Print (Getting ''Alice'' ''0000-0001-1111-1111''), Request ''0000-0001-1111-1111'',
         Print (FailToRequest ''0000-0001-1111-1111''), Print (Found 0), Sleep (1 / 2),
         Print (SkipInvalid ''Bob''), Print NoWorks], None) \<and>
   fetch_orcid_works_from_excel script_globals
       (alice_world\<lparr>read_excel := (\<lambda>path. Frame \<lparr>columns = [''Name'', ''ORCID''], rows = []\<rparr>)\<rparr>)
       (\<lambda>v. []) ''in.xlsx'' ''out.xlsx'' (1 / 2)
     = ([Print NoWorks], None)"
proof -
  note T = empty_accumulator_writes_nothing
  let ?s = "\<lparr>events = [Print (Getting ''Alice'' ''0000-0001-1111-1111''),
                    Request ''0000-0001-1111-1111'',
                    Print (FailToRequest ''0000-0001-1111-1111''), Print (Found 0),
                    Sleep (1 / 2), Print (SkipInvalid ''Bob'')],
         all_works = [], requests = 1\<rparr>"
  let ?W = "alice_world\<lparr>read_excel := (\<lambda>path. Frame \<lparr>columns = [''Name'', ''ORCID''], rows = []\<rparr>)\<rparr>"
  let ?df = "\<lparr>columns = [''Name'', ''ORCID''], rows = []\<rparr>"
  have e: "all_works start = []" by (simp add: start_def)
  have g: "input_file script_globals = Some ''orcid_list.xlsx''"
    by (simp add: script_globals_def)
  have r: "read_excel offline_world ''orcid_list.xlsx'' = Frame roster"
    by (simp add: offline_world_def alice_world_def)
  have c1: "''Name'' \<in> set (columns roster)" by (simp add: roster_def)
  have c2: "''ORCID'' \<in> set (columns roster)" by (simp add: roster_def)
  have l: "rows_loop offline_world (\<lambda>v. []) (1 / 2) (columns roster) (rows roster) start = (?s, None)"
    by (rule offline_run)
  have w: "all_works ?s = []" by simp
  have r': "read_excel ?W ''orcid_list.xlsx'' = Frame ?df" by simp
  have c1': "''Name'' \<in> set (columns ?df)" by simp
  have c2': "''ORCID'' \<in> set (columns ?df)" by simp
  have n: "rows ?df = []" by simp
  have a: "export_works script_globals offline_world start = (events start @ [Print NoWorks], None)"
    using T [THEN conjunct1, THEN mp, OF e] .
  have b: "fetch_orcid_works_from_excel script_globals offline_world (\<lambda>v. []) ''in.xlsx'' ''out.xlsx'' (1 / 2)
             = (events ?s @ [Print NoWorks], None)
           \<and> list_all (\<lambda>e. \<not> is_write e) (events ?s @ [Print NoWorks])"
    using T [THEN conjunct2, THEN conjunct1, THEN mp,
              OF conjI [OF g conjI [OF r conjI [OF c1 conjI [OF c2 conjI [OF l w]]]]]] .
  have c: "fetch_orcid_works_from_excel script_globals ?W (\<lambda>v. []) ''in.xlsx'' ''out.xlsx'' (1 / 2)
             = ([Print NoWorks], None)"
    using T [THEN conjunct2, THEN conjunct2, THEN mp,
              OF conjI [OF g conjI [OF r' conjI [OF c1' conjI [OF c2' n]]]]] .
  show ?thesis using a b c by (simp add: start_def)
qed

section \<open>The table of the export\<close>

lemma fill_missing_grows: "set (map fst df) \<subseteq> set (map fst (fill_missing n cs df))"
proof (induction cs arbitrary: df)
  case Nil
  then show ?case by simp
next
  case (Cons c cs)
  show ?case
  proof (cases "c \<in> set (map fst df)")
    case True
    then show ?thesis using Cons.IH [of df] by simp
  next
    case False
    then show ?thesis using Cons.IH [of "df @ [(c, replicate n (Val NA))]"] by auto
  qed
qed

lemma fill_missing_has: "set cs \<subseteq> set (map fst (fill_missing n cs df))"
proof (induction cs arbitrary: df)
  case Nil
  then show ?case by simp
next
  case (Cons c cs)
  let ?df = "if c \<notin> set (map fst df) then df @ [(c, replicate n (Val NA))] else df"
  have "c \<in> set (map fst ?df)" by auto
  then have "c \<in> set (map fst (fill_missing n cs ?df))"
    using fill_missing_grows [of ?df n cs] by blast
  moreover have "set cs \<subseteq> set (map fst (fill_missing n cs ?df))"
    by (rule Cons.IH)
  ultimately show ?case by simp
qed

lemma select_columns_ok:
  "set cs \<subseteq> set (map fst df) \<Longrightarrow> \<exists>out. select_columns df cs = Inr out \<and> map fst out = cs"
proof (induction cs)
  case Nil
  then show ?case by simp
next
  case (Cons c cs)
  then obtain out where out: "select_columns df cs = Inr out" "map fst out = cs"
    by auto
  from Cons.prems have "map_of df c \<noteq> None"
    by (simp add: map_of_eq_None_iff)
  then obtain xs where "map_of df c = Some xs" by auto
  with out show ?case by simp
qed

lemma selection_exists:
  "\<exists>df. select_columns (fill_missing n desired_order (DataFrame ws)) desired_order = Inr df
        \<and> map fst df = desired_order"
  by (rule select_columns_ok [OF fill_missing_has [of desired_order n "DataFrame ws"]])

lemma rename_header:
  assumes "map fst df = desired_order"
  shows "map fst (rename df)
     = [''Name'', ''ORCID'', ''Title'', ''Publication Date'', ''Journal/Source'', ''DOI'']"
proof -
  have "map fst (rename df) = map rename_column (map fst df)"
    by (simp add: rename_def case_prod_beta)
  also have "\<dots> = map rename_column desired_order"
    by (simp only: assms)
  also have "\<dots> = [''Name'', ''ORCID'', ''Title'', ''Publication Date'', ''Journal/Source'', ''DOI'']"
    by (simp add: desired_order_def rename_column_def)
  finally show ?thesis .
qed

lemma export_schema:
  assumes "all_works s \<noteq> []" and "output_file G = Some out" and "to_excel W out = None"
  shows "\<exists>df. export_works G W s
                = (events s @ [Write out df, Print (Exported (length (all_works s)) out)], None)
             \<and> map fst df
                = [''Name'', ''ORCID'', ''Title'', ''Publication Date'', ''Journal/Source'', ''DOI'']"
proof -
  obtain df where df:
    "select_columns (fill_missing (length (all_works s)) desired_order (DataFrame (all_works s)))
       desired_order = Inr df" "map fst df = desired_order"
    using selection_exists by blast
  have 1: "export_works G W s
             = (events s @ [Write out (rename df), Print (Exported (length (all_works s)) out)], None)"
    using assms df(1) by (simp add: export_works_def)
  have 2: "map fst (rename df)
             = [''Name'', ''ORCID'', ''Title'', ''Publication Date'', ''Journal/Source'', ''DOI'']"
    using df(2) by (rule rename_header)
  show ?thesis
    by (rule exI [of _ "rename df"]) (rule conjI [OF 1 2])
qed

lemma export_unbound_output:
  assumes "all_works s \<noteq> []" and "output_file G = None"
  shows "export_works G W s = (events s, Some NameError)"
proof -
  obtain df where
    "select_columns (fill_missing (length (all_works s)) desired_order (DataFrame (all_works s)))
       desired_order = Inr df"
    using selection_exists by blast
  then show ?thesis using assms by (simp add: export_works_def)
qed

text \<open>
  Claim C8. The function never reads its parameters \<^verbatim>\<open>input_excel\<close> and
  \<^verbatim>\<open>output_excel\<close>: two calls that differ only in them do the same. What it
  reads are the globals \<^verbatim>\<open>input_file\<close> and \<^verbatim>\<open>output_file\<close>. With the
  first unbound, the \<^verbatim>\<open>NameError\<close> is caught with the errors of reading and the
  run ends with the notice that the file cannot be read. With the second unbound and
  records to export, the \<^verbatim>\<open>NameError\<close> of the write step leaves the function,
  and nothing has been written.
\<close>

theorem parameters_are_ignored:
  "fetch_orcid_works_from_excel G W R a b t = fetch_orcid_works_from_excel G W R a' b' t \<and>
   (input_file G = None
      \<longrightarrow> fetch_orcid_works_from_excel G W R a b t = ([Print (CannotRead NameError)], None)) \<and>
   (input_file G = Some path \<and> read_excel W path = Frame df
      \<and> ''Name'' \<in> set (columns df) \<and> ''ORCID'' \<in> set (columns df)
      \<and> rows_loop W R t (columns df) (rows df) start = (s, None)
      \<and> all_works s \<noteq> [] \<and> output_file G = None
      \<longrightarrow> fetch_orcid_works_from_excel G W R a b t = (events s, Some NameError)
          \<and> list_all (\<lambda>e. \<not> is_write e) (events s))"
proof (intro conjI impI)
  show "fetch_orcid_works_from_excel G W R a b t = fetch_orcid_works_from_excel G W R a' b' t"
    by (simp add: fetch_orcid_works_from_excel_def)
next
  assume "input_file G = None"
  then show "fetch_orcid_works_from_excel G W R a b t = ([Print (CannotRead NameError)], None)"
    by (simp add: fetch_orcid_works_from_excel_def)
next
  assume a: "input_file G = Some path \<and> read_excel W path = Frame df
      \<and> ''Name'' \<in> set (columns df) \<and> ''ORCID'' \<in> set (columns df)
      \<and> rows_loop W R t (columns df) (rows df) start = (s, None)
      \<and> all_works s \<noteq> [] \<and> output_file G = None"
  then have "fetch_orcid_works_from_excel G W R a b t = export_works G W s"
    using run_reaches_export by blast
  with a show "fetch_orcid_works_from_excel G W R a b t = (events s, Some NameError)"
    by (simp add: export_unbound_output)
next
  assume a: "input_file G = Some path \<and> read_excel W path = Frame df
      \<and> ''Name'' \<in> set (columns df) \<and> ''ORCID'' \<in> set (columns df)
      \<and> rows_loop W R t (columns df) (rows df) start = (s, None)
      \<and> all_works s \<noteq> [] \<and> output_file G = None"
  have "list_all (\<lambda>e. \<not> is_write e) (events start)"
    by (simp add: start_def)
  with a show "list_all (\<lambda>e. \<not> is_write e) (events s)"
    using rows_loop_no_write by blast
qed

lemma alice_rows:
  "rows_loop alice_world (\<lambda>v. []) (1 / 2) (columns roster) (rows roster) start
     = (\<lparr>events = [Print (Getting ''Alice'' ''0000-0001-1111-1111''),
                    Request ''0000-0001-1111-1111'', Print (Found 1), Sleep (1 / 2),
                    Print (SkipInvalid ''Bob'')],
         all_works = [[(''title'', JStr ''Paper A''), (''publication_date'', JStr ''2021-01-01''),
                       (''journal'', JStr ''Conf X''), (''doi'', JStr ''10.1/xyz''),
                       (''Name'', JStr ''Alice''), (''ORCID'', JStr ''0000-0001-1111-1111'')]],
         requests = 1\<rparr>, None)"
  by code_simp

theorem parameters_are_ignored_witness:
  "fetch_orcid_works_from_excel \<lparr>input_file = None, output_file = None\<rparr> alice_world (\<lambda>v. [])
       ''orcid_list.xlsx'' ''output_orcid_works.xlsx'' (1 / 2)
     = ([Print (CannotRead NameError)], None) \<and>
   fetch_orcid_works_from_excel \<lparr>input_file = Some ''orcid_list.xlsx'', output_file = None\<rparr>
       alice_world (\<lambda>v. []) ''orcid_list.xlsx'' ''output_orcid_works.xlsx'' (1 / 2)
     = ([Print (Getting ''Alice'' ''0000-0001-1111-1111''), Request ''0000-0001-1111-1111'',
         Print (Found 1), Sleep (1 / 2), Print (SkipInvalid ''Bob'')], Some NameError)"
proof -
  note T = parameters_are_ignored
  let ?G0 = "\<lparr>input_file = None, output_file = None\<rparr>"
  let ?G1 = "\<lparr>input_file = Some ''orcid_list.xlsx'', output_file = None\<rparr>"
  let ?s = "\<lparr>events = [Print (Getting ''Alice'' ''0000-0001-1111-1111''),
                    Request ''0000-0001-1111-1111'', Print (Found 1), Sleep (1 / 2),
                    Print (SkipInvalid ''Bob'')],
         all_works = [[(''title'', JStr ''Paper A''), (''publication_date'', JStr ''2021-01-01''),
                       (''journal'', JStr ''Conf X''), (''doi'', JStr ''10.1/xyz''),
                       (''Name'', JStr ''Alice''), (''ORCID'', JStr ''0000-0001-1111-1111'')]],
         requests = 1\<rparr>"
  have g0: "input_file ?G0 = None" by simp
  have g1: "input_file ?G1 = Some ''orcid_list.xlsx''" by simp
  have o1: "output_file ?G1 = None" by simp
  have r: "read_excel alice_world ''orcid_list.xlsx'' = Frame roster"
    by (simp add: alice_world_def)
  have c1: "''Name'' \<in> set (columns roster)" by (simp add: roster_def)
  have c2: "''ORCID'' \<in> set (columns roster)" by (simp add: roster_def)
  have l: "rows_loop alice_world (\<lambda>v. []) (1 / 2) (columns roster) (rows roster) start = (?s, None)"
    by (rule alice_rows)
  have w: "all_works ?s \<noteq> []" by simp
  have a: "fetch_orcid_works_from_excel ?G0 alice_world (\<lambda>v. [])
             ''orcid_list.xlsx'' ''output_orcid_works.xlsx'' (1 / 2)
           = ([Print (CannotRead NameError)], None)"
    using T [THEN conjunct2, THEN conjunct1, THEN mp, OF g0] .
  have b: "fetch_orcid_works_from_excel ?G1 alice_world (\<lambda>v. [])
             ''orcid_list.xlsx'' ''output_orcid_works.xlsx'' (1 / 2)
           = (events ?s, Some NameError) \<and> list_all (\<lambda>e. \<not> is_write e) (events ?s)"
    using T [THEN conjunct2, THEN conjunct2, THEN mp,
              OF conjI [OF g1 conjI [OF r conjI [OF c1 conjI [OF c2 conjI [OF l conjI [OF w o1]]]]]]] .
  show ?thesis using a b by simp
qed

section \<open>Null values in the table\<close>

text \<open>
  Claim C5. The specification asks that title, journal and DOI of an exported record are
  never null. The export does have the six columns in the fixed order (lemma
  \<open>export_schema\<close>), but the default "N/A" of \<^verbatim>\<open>.get("value", "N/A")\<close> stands
  in for a missing key only: a null that the reply holds under \<^verbatim>\<open>value\<close> is taken
  as the title (line 42) and reaches the written table. The theorem runs the script on a
  roster with Alice and a reply whose title has the value null.
\<close>

theorem null_title_reaches_the_table:
  "fetch_orcid_works_from_excel script_globals null_title_world R
       ''orcid_list.xlsx'' ''output_orcid_works.xlsx'' (1 / 2)
     = ([Print (Getting ''Alice'' ''0000-0001-1111-1111''), Request ''0000-0001-1111-1111'',
         Print (Found 1), Sleep (1 / 2), Print (SkipInvalid ''Bob''),
         Write ''output_orcid_works.xlsx''
           [(''Name'', [Val (JStr ''Alice'')]),
            (''ORCID'', [Val (JStr ''0000-0001-1111-1111'')]),
            (''Title'', [Val JNull]),
            (''Publication Date'', [Val JNull]),
            (''Journal/Source'', [Val (JStr ''N/A'')]),
            (''DOI'', [Val (JStr ''N/A'')])],
         Print (Exported 1 ''output_orcid_works.xlsx'')], None)"
  by code_simp

theorem null_title_reaches_the_table_witness:
  "map_of (case last (butlast (fst (fetch_orcid_works_from_excel script_globals null_title_world
             (\<lambda>v. []) ''orcid_list.xlsx'' ''output_orcid_works.xlsx'' (1 / 2)))) of
             Write path df \<Rightarrow> df | e \<Rightarrow> []) ''Title''
     = Some [Val JNull]"
  using null_title_reaches_the_table [of "\<lambda>v. []"] by simp

end
